theory Spec2Isabelle
  imports Main "HOL-Library.Sublist"
begin

section \<open>The bunny.net DNS01 solver: data model\<close>

text \<open>
  The repository holds two variants of the solver, both \<^verbatim>\<open>package main\<close> with the
  same function names: \<^verbatim>\<open>src/main.go\<close> and \<^verbatim>\<open>src/unnamed/part_000\<close>. Definitions
  that the two share textually are given once; where they differ the definition carries
  the suffix \<open>_main\<close> or \<open>_part0\<close>.

  Go's \<^verbatim>\<open>int\<close> is modelled as \<open>int\<close>: the code only compares, copies and prints
  integers, it never computes with them. A Go \<^verbatim>\<open>string\<close> is a \<open>string\<close> (a list of
  bytes). A Go \<^verbatim>\<open>error\<close> is modelled by its message.
\<close>

subsection \<open>Library functions of package strings\<close>

text \<open>
  \<^verbatim>\<open>
  func HasSuffix(s, suffix string) bool {
      return len(s) >= len(suffix) && s[len(s)-len(suffix):] == suffix }
  func TrimSuffix(s, suffix string) string {
      if HasSuffix(s, suffix) { return s[:len(s)-len(suffix)] }
      return s }
  \<close>
\<close>

definition HasSuffix :: "string \<Rightarrow> string \<Rightarrow> bool" where
  "HasSuffix s suf = (length s \<ge> length suf \<and> drop (length s - length suf) s = suf)"

definition TrimSuffix :: "string \<Rightarrow> string \<Rightarrow> string" where
  "TrimSuffix s suf = (if HasSuffix s suf then take (length s - length suf) s else s)"

subsection \<open>The relative hostname\<close>

text \<open>
  \<^verbatim>\<open>
  hostname := strings.TrimSuffix(ch.ResolvedFQDN, ch.ResolvedZone)
  hostname = strings.TrimSuffix(hostname, ".")
  \<close>
  in \<^verbatim>\<open>Present\<close> of both files, and the same expression nested in \<^verbatim>\<open>CleanUp\<close>.
\<close>

definition hostname :: "string \<Rightarrow> string \<Rightarrow> string" where
  "hostname fqdn zone = TrimSuffix (TrimSuffix fqdn zone) ''.''"

subsection \<open>Printing integers\<close>

text \<open>The verb \<^verbatim>\<open>%d\<close> of \<^verbatim>\<open>fmt.Sprintf\<close>: decimal digits, with a minus sign if negative.\<close>

definition digit :: "nat \<Rightarrow> char" where
  "digit d = char_of (48 + d)"

function udigits :: "nat \<Rightarrow> string" where
  "udigits n = (if n < 10 then [digit n] else udigits (n div 10) @ [digit (n mod 10)])"
  by pat_completeness auto
termination
  by (relation "measure id") auto

declare udigits.simps [simp del]

definition itoa :: "int \<Rightarrow> string" where
  "itoa i = (if i < 0 then CHR ''-'' # udigits (nat (- i)) else udigits (nat i))"

subsection \<open>Structs\<close>

text \<open>
  \<^verbatim>\<open>v1alpha1.ChallengeRequest\<close> belongs to cert-manager; the solver reads three of its
  fields. The solver receives a pointer, which may be nil: a request is a
  \<open>ChallengeRequest option\<close>.
\<close>

record ChallengeRequest =
  ResolvedFQDN :: string
  ResolvedZone :: string
  Key :: string

record bunnyNetDNSConfig =
  APIKey :: string

text \<open>
  \<^verbatim>\<open>Record\<close>, \<^verbatim>\<open>Item\<close> and \<^verbatim>\<open>ZoneResponse\<close> as in part_000. In main.go the response
  type is called \<^verbatim>\<open>Root\<close> and \<^verbatim>\<open>Item\<close> and \<^verbatim>\<open>Record\<close> have further fields, none of
  which the code reads.
\<close>

record Record =
  ID :: int
  Type :: int
  Ttl :: int
  Value :: string
  Name :: string
  Disabled :: bool

record Item =
  ID :: int
  Domain :: string
  Records :: "Record list"

record ZoneResponse =
  Items :: "Item list"
  CurrentPage :: int
  TotalItems :: int
  HasMoreItems :: bool

text \<open>The anonymous struct that \<^verbatim>\<open>Present\<close> of main.go builds and marshals.\<close>

record PutRecord =
  Type :: int
  TTL :: int
  Value :: string
  Name :: string
  Disabled :: bool

definition bunnyAPIBase :: string where
  "bunnyAPIBase = ''https://api.bunny.net''"

definition recordTTL :: int where
  "recordTTL = 10"

definition recordType :: int where
  "recordType = 3"

definition errMissingAPIKey :: string where
  "errMissingAPIKey = ''API_KEY must be specified''"

subsection \<open>JSON encoding of the request body\<close>

text \<open>
  \<^verbatim>\<open>json.Marshal\<close> of a struct writes one member per exported field, in declaration
  order, under the name of the field's tag; a field tagged \<^verbatim>\<open>omitempty\<close> is left out
  when it holds the zero value of its type (0, the empty string, false). The body is
  kept as the list of members it encodes, not as bytes.
\<close>

datatype json = JInt int | JStr string | JBool bool

type_synonym json_object = "(string \<times> json) list"

fun isEmptyValue :: "json \<Rightarrow> bool" where
  "isEmptyValue (JInt i) = (i = 0)"
| "isEmptyValue (JStr s) = (s = [])"
| "isEmptyValue (JBool b) = (\<not> b)"

definition omitempty :: "string \<Rightarrow> json \<Rightarrow> json_object" where
  "omitempty k v = (if isEmptyValue v then [] else [(k, v)])"

text \<open>
  part_000: every field of \<^verbatim>\<open>Record\<close> is tagged \<^verbatim>\<open>omitempty\<close>, as in
  \<^verbatim>\<open>Disabled bool `json:"Disabled,omitempty"`\<close>.
\<close>

definition Marshal_Record :: "Record \<Rightarrow> json_object" where
  "Marshal_Record r =
     omitempty ''Id'' (JInt (Record.ID r)) @
     omitempty ''Type'' (JInt (Record.Type r)) @
     omitempty ''Ttl'' (JInt (Record.Ttl r)) @
     omitempty ''Value'' (JStr (Record.Value r)) @
     omitempty ''Name'' (JStr (Record.Name r)) @
     omitempty ''Disabled'' (JBool (Record.Disabled r))"

text \<open>main.go: the anonymous struct's tags are plain, as in \<^verbatim>\<open>Disabled bool `json:"Disabled"`\<close>.\<close>

definition Marshal_PutRecord :: "PutRecord \<Rightarrow> json_object" where
  "Marshal_PutRecord r =
     [(''Type'', JInt (PutRecord.Type r)),
      (''Ttl'', JInt (PutRecord.TTL r)),
      (''Value'', JStr (PutRecord.Value r)),
      (''Name'', JStr (PutRecord.Name r)),
      (''Disabled'', JBool (PutRecord.Disabled r))]"

subsection \<open>The network and the results of a call\<close>

text \<open>
  A request as handed to the HTTP client. Headers are listed in the order the code adds
  them, under the names the code writes.
\<close>

record http_request =
  Method :: string
  URL :: string
  Header :: "(string \<times> string) list"
  Payload :: "json_object option"

text \<open>
  A response: its status and what \<^verbatim>\<open>io.ReadAll(resp.Body)\<close> gives, the bytes read and
  the error, if any.
\<close>

record http_response =
  StatusCode :: int
  Body :: "string \<times> string option"

text \<open>
  Everything outside the repository that the code calls:
  \<^item> \<open>ApiKey\<close>: the package variable read from the environment;
  \<^item> \<open>NewRequest_fails\<close>: the error of \<^verbatim>\<open>http.NewRequest(method, url, body)\<close>, if any;
  \<^item> \<open>ClientDo\<close>: \<^verbatim>\<open>Do\<close> of the HTTP client, giving Go's pair \<^verbatim>\<open>(*Response, error)\<close>;
  \<^item> \<open>Unmarshal\<close>: \<^verbatim>\<open>json.Unmarshal(body, &data)\<close> on zero-valued \<^verbatim>\<open>data\<close>, giving
    what \<^verbatim>\<open>data\<close> holds afterwards and the error, if any.
\<close>

record world =
  ApiKey :: string
  NewRequest_fails :: "string \<Rightarrow> string \<Rightarrow> string option"
  ClientDo :: "http_request \<Rightarrow> http_response option \<times> string option"
  Unmarshal :: "string \<Rightarrow> ZoneResponse \<times> string option"

text \<open>
  A call either panics, returns a non-nil error (\<open>Fails\<close>, with the error's message) or
  returns normally. Next to its outcome each function gives the requests it handed to
  the HTTP client, in order.
\<close>

datatype panic = IndexOutOfRange | NilDereference | PanicMessage string

datatype 'a outcome = Panics panic | Fails string | Returns 'a

type_synonym 'a call = "'a outcome \<times> http_request list"

definition zeroZoneResponse :: ZoneResponse where
  "zeroZoneResponse = \<lparr>Items = [], CurrentPage = 0, TotalItems = 0, HasMoreItems = False\<rparr>"

section \<open>The solver\<close>

subsection \<open>loadConfig\<close>

text \<open>
  \<^verbatim>\<open>
  func loadConfig() (bunnyNetDNSConfig, error) {
      if ApiKey == "" { panic(errMissingAPIKey) }
      cfg := bunnyNetDNSConfig{ APIKey: ApiKey }
      return cfg, nil }
  \<close>
\<close>

definition loadConfig :: "world \<Rightarrow> bunnyNetDNSConfig outcome" where
  "loadConfig w =
     (if ApiKey w = [] then Panics (PanicMessage errMissingAPIKey)
      else Returns \<lparr>APIKey = ApiKey w\<rparr>)"

subsection \<open>GetZone\<close>

text \<open>
  Both files start with
  \<^verbatim>\<open>
  if zone[len(zone)-1] == '.' { zone = zone[:len(zone)-1] }
  \<close>
  which indexes at -1, and panics, when \<^verbatim>\<open>zone\<close> is empty.
\<close>

definition searchTerm :: "string \<Rightarrow> string" where
  "searchTerm zone = (if last zone = CHR ''.'' then butlast zone else zone)"

definition searchURL :: "string \<Rightarrow> string" where
  "searchURL term = bunnyAPIBase @ ''/dnszone?page=1&perPage=1&search='' @ term"

text \<open>
  part_000: each step's error is wrapped and returned, and an empty \<^verbatim>\<open>Items\<close> is an
  error. A nil response together with a nil error, which the HTTP client promises not
  to give, would panic at \<^verbatim>\<open>res.Body\<close>.
\<close>

definition GetZone_part0 :: "world \<Rightarrow> string \<Rightarrow> bunnyNetDNSConfig \<Rightarrow> ZoneResponse call" where
  "GetZone_part0 w zone cfg =
     (if zone = [] then (Panics IndexOutOfRange, [])
      else
        let zone' = searchTerm zone;
            url = searchURL zone'
        in (case NewRequest_fails w ''GET'' url of
              Some e \<Rightarrow> (Fails (''failed to create request: '' @ e), [])
            | None \<Rightarrow>
                (let req = \<lparr>Method = ''GET'', URL = url,
                            Header = [(''Accept'', ''application/json''), (''AccessKey'', APIKey cfg)],
                            Payload = None\<rparr>
                 in (case ClientDo w req of
                       (_, Some e) \<Rightarrow> (Fails (''failed to execute request: '' @ e), [req])
                     | (None, None) \<Rightarrow> (Panics NilDereference, [req])
                     | (Some res, None) \<Rightarrow>
                         (case Body res of
                            (_, Some e) \<Rightarrow> (Fails (''failed to read response body: '' @ e), [req])
                          | (body, None) \<Rightarrow>
                              (case Unmarshal w body of
                                 (_, Some e) \<Rightarrow>
                                   (Fails (''failed to unmarshal response: '' @ e), [req])
                               | (data, None) \<Rightarrow>
                                   (if length (Items data) = 0
                                    then (Fails (''no DNS zone found for '' @ zone'), [req])
                                    else (Returns data, [req]))))))))"

text \<open>
  main.go: every error is assigned to \<^verbatim>\<open>_\<close>.
  \<^verbatim>\<open>
  req, _ := http.NewRequest("GET", url, nil)
  req.Header.Add("accept", "application/json")
  req.Header.Add("AccessKey", cfg.APIKey)
  res, _ := http.DefaultClient.Do(req)
  defer res.Body.Close()
  body, _ := io.ReadAll(res.Body)
  var data Root
  json.Unmarshal([]byte(body), &data)
  return data, nil
  \<close>
  When \<^verbatim>\<open>http.NewRequest\<close> fails, \<^verbatim>\<open>req\<close> is nil and \<^verbatim>\<open>req.Header\<close> panics; when
  \<^verbatim>\<open>Do\<close> gives no response, \<^verbatim>\<open>res\<close> is nil and \<^verbatim>\<open>res.Body\<close> panics. A failed read
  leaves in \<^verbatim>\<open>body\<close> the bytes read so far, a failed decoding leaves in \<^verbatim>\<open>data\<close> what
  was decoded so far.
\<close>

definition GetZone_main :: "world \<Rightarrow> string \<Rightarrow> bunnyNetDNSConfig \<Rightarrow> ZoneResponse call" where
  "GetZone_main w zone cfg =
     (if zone = [] then (Panics IndexOutOfRange, [])
      else
        let zone' = searchTerm zone;
            url = ''https://api.bunny.net/dnszone?page=1&perPage=1&search='' @ zone'
        in (case NewRequest_fails w ''GET'' url of
              Some e \<Rightarrow> (Panics NilDereference, [])
            | None \<Rightarrow>
                (let req = \<lparr>Method = ''GET'', URL = url,
                            Header = [(''accept'', ''application/json''), (''AccessKey'', APIKey cfg)],
                            Payload = None\<rparr>
                 in (case fst (ClientDo w req) of
                       None \<Rightarrow> (Panics NilDereference, [req])
                     | Some res \<Rightarrow>
                         (let body = fst (Body res);
                              data = fst (Unmarshal w body)
                          in (Returns data, [req]))))))"

subsection \<open>GetZoneID\<close>

text \<open>
  \<^verbatim>\<open>
  data, err := GetZone(zone, cfg)
  if err != nil { return 0, err }
  return int64(data.Items[0].ID), nil
  \<close>
  The same text in both files, over the file's own \<^verbatim>\<open>GetZone\<close>.
\<close>

definition GetZoneID_body :: "ZoneResponse call \<Rightarrow> int call" where
  "GetZoneID_body r =
     (case r of
        (Panics p, tr) \<Rightarrow> (Panics p, tr)
      | (Fails e, tr) \<Rightarrow> (Fails e, tr)
      | (Returns data, tr) \<Rightarrow>
          (case Items data of
             [] \<Rightarrow> (Panics IndexOutOfRange, tr)
           | item # _ \<Rightarrow> (Returns (Item.ID item), tr)))"

definition GetZoneID_part0 :: "world \<Rightarrow> string \<Rightarrow> bunnyNetDNSConfig \<Rightarrow> int call" where
  "GetZoneID_part0 w zone cfg = GetZoneID_body (GetZone_part0 w zone cfg)"

definition GetZoneID_main :: "world \<Rightarrow> string \<Rightarrow> bunnyNetDNSConfig \<Rightarrow> int call" where
  "GetZoneID_main w zone cfg = GetZoneID_body (GetZone_main w zone cfg)"

subsection \<open>Present\<close>

definition recordsURL :: "int \<Rightarrow> string" where
  "recordsURL zoneID = bunnyAPIBase @ ''/dnszone/'' @ itoa zoneID @ ''/records''"

text \<open>
  From \<^verbatim>\<open>http.NewRequest(http.MethodPut, url, bytes.NewReader(payload))\<close> to the end of
  \<^verbatim>\<open>Present\<close>, the same text in both files; \<open>tr\<close> holds the requests sent so far.
\<close>

definition Present_send :: "world \<Rightarrow> string \<Rightarrow> json_object \<Rightarrow> http_request list \<Rightarrow> unit call" where
  "Present_send w url payload tr =
     (case NewRequest_fails w ''PUT'' url of
        Some e \<Rightarrow> (Fails (''failed to create request: '' @ e), tr)
      | None \<Rightarrow>
          (let req = \<lparr>Method = ''PUT'', URL = url,
                      Header = [(''Accept'', ''application/json''),
                                (''Content-Type'', ''application/json''),
                                (''AccessKey'', ApiKey w)],
                      Payload = Some payload\<rparr>
           in (case ClientDo w req of
                 (_, Some e) \<Rightarrow> (Fails (''failed to send request: '' @ e), tr @ [req])
               | (None, None) \<Rightarrow> (Panics NilDereference, tr @ [req])
               | (Some resp, None) \<Rightarrow>
                   (case Body resp of
                      (_, Some e) \<Rightarrow> (Fails (''failed to read response: '' @ e), tr @ [req])
                    | (body, None) \<Rightarrow>
                        (if StatusCode resp \<ge> 400
                         then (Fails (''API request failed with status '' @ itoa (StatusCode resp)
                                      @ '': '' @ body), tr @ [req])
                         else (Returns (), tr @ [req]))))))"

text \<open>The record that \<^verbatim>\<open>Present\<close> builds: part_000 a \<^verbatim>\<open>Record\<close>, whose \<^verbatim>\<open>ID\<close> stays zero.\<close>

definition Present_record_part0 :: "ChallengeRequest \<Rightarrow> Record" where
  "Present_record_part0 ch =
     \<lparr>Record.ID = 0, Type = recordType, Ttl = recordTTL, Value = Key ch,
      Name = hostname (ResolvedFQDN ch) (ResolvedZone ch), Disabled = False\<rparr>"

definition Present_record_main :: "ChallengeRequest \<Rightarrow> PutRecord" where
  "Present_record_main ch =
     \<lparr>PutRecord.Type = recordType, TTL = recordTTL, Value = Key ch,
      Name = hostname (ResolvedFQDN ch) (ResolvedZone ch), Disabled = False\<rparr>"

text \<open>part_000 rejects a nil request first.\<close>

definition Present_part0 :: "world \<Rightarrow> ChallengeRequest option \<Rightarrow> unit call" where
  "Present_part0 w chp =
     (case chp of
        None \<Rightarrow> (Fails ''challenge request cannot be nil'', [])
      | Some ch \<Rightarrow>
          (case loadConfig w of
             Panics p \<Rightarrow> (Panics p, [])
           | Fails e \<Rightarrow> (Fails (''failed to load config: '' @ e), [])
           | Returns cfg \<Rightarrow>
               (case GetZoneID_part0 w (ResolvedZone ch) cfg of
                  (Panics p, tr) \<Rightarrow> (Panics p, tr)
                | (Fails e, tr) \<Rightarrow> (Fails (''failed to get zone ID: '' @ e), tr)
                | (Returns zoneID, tr) \<Rightarrow>
                    Present_send w (recordsURL zoneID)
                      (Marshal_Record (Present_record_part0 ch)) tr)))"

text \<open>
  main.go has no such check: after \<^verbatim>\<open>loadConfig\<close>, \<^verbatim>\<open>ch.ResolvedZone\<close> dereferences the
  pointer.
\<close>

definition Present_main :: "world \<Rightarrow> ChallengeRequest option \<Rightarrow> unit call" where
  "Present_main w chp =
     (case loadConfig w of
        Panics p \<Rightarrow> (Panics p, [])
      | Fails e \<Rightarrow> (Fails (''failed to load config: '' @ e), [])
      | Returns cfg \<Rightarrow>
          (case chp of
             None \<Rightarrow> (Panics NilDereference, [])
           | Some ch \<Rightarrow>
               (case GetZoneID_main w (ResolvedZone ch) cfg of
                  (Panics p, tr) \<Rightarrow> (Panics p, tr)
                | (Fails e, tr) \<Rightarrow> (Fails (''failed to get zone ID: '' @ e), tr)
                | (Returns zoneID, tr) \<Rightarrow>
                    Present_send w (recordsURL zoneID)
                      (Marshal_PutRecord (Present_record_main ch)) tr)))"

subsection \<open>CleanUp\<close>

text \<open>
  \<^verbatim>\<open>
  recordID := 0
  for _, record := range zoneData.Items[0].Records {
      if record.Type == 3 && record.Name == hostname && record.Value == ch.Key {
          recordID = record.ID
          break } }
  \<close>
\<close>

fun findRecordID :: "Record list \<Rightarrow> string \<Rightarrow> string \<Rightarrow> int" where
  "findRecordID [] host key = 0"
| "findRecordID (record # rest) host key =
     (if Record.Type record = 3 \<and> Record.Name record = host \<and> Record.Value record = key
      then Record.ID record
      else findRecordID rest host key)"

definition recordURL :: "int \<Rightarrow> int \<Rightarrow> string" where
  "recordURL zoneID recordID =
     bunnyAPIBase @ ''/dnszone/'' @ itoa zoneID @ ''/records/'' @ itoa recordID"

text \<open>
  \<^verbatim>\<open>CleanUp\<close> has the same text in both files, over the file's own \<^verbatim>\<open>GetZone\<close>
  (main.go also prints the records it scans). It dereferences \<^verbatim>\<open>ch\<close> unchecked, and
  it indexes \<^verbatim>\<open>zoneData.Items[0]\<close>.
\<close>

definition CleanUp_body ::
  "(world \<Rightarrow> string \<Rightarrow> bunnyNetDNSConfig \<Rightarrow> ZoneResponse call) \<Rightarrow>
   world \<Rightarrow> ChallengeRequest option \<Rightarrow> unit call" where
  "CleanUp_body getZone w chp =
     (case loadConfig w of
        Panics p \<Rightarrow> (Panics p, [])
      | Fails e \<Rightarrow> (Fails e, [])
      | Returns cfg \<Rightarrow>
          (case chp of
             None \<Rightarrow> (Panics NilDereference, [])
           | Some ch \<Rightarrow>
               (case getZone w (ResolvedZone ch) cfg of
                  (Panics p, tr) \<Rightarrow> (Panics p, tr)
                | (Fails e, tr) \<Rightarrow> (Fails (''failed to get zone ID: '' @ e), tr)
                | (Returns zoneData, tr) \<Rightarrow>
                    (case Items zoneData of
                       [] \<Rightarrow> (Panics IndexOutOfRange, tr)
                     | item # _ \<Rightarrow>
                         (let recordID = findRecordID (Records item)
                                           (hostname (ResolvedFQDN ch) (ResolvedZone ch)) (Key ch)
                          in (if recordID = 0 then (Returns (), tr)
                              else
                                (let url = recordURL (Item.ID item) recordID
                                 in (case NewRequest_fails w ''DELETE'' url of
                                       Some e \<Rightarrow> (Fails e, tr)
                                     | None \<Rightarrow>
                                         (let req = \<lparr>Method = ''DELETE'', URL = url,
                                                     Header = [(''accept'', ''application/json''),
                                                               (''AccessKey'', APIKey cfg)],
                                                     Payload = None\<rparr>
                                          in (case snd (ClientDo w req) of
                                                Some e \<Rightarrow> (Fails e, tr @ [req])
                                              | None \<Rightarrow> (Returns (), tr @ [req])))))))))))"

definition CleanUp_part0 :: "world \<Rightarrow> ChallengeRequest option \<Rightarrow> unit call" where
  "CleanUp_part0 = CleanUp_body GetZone_part0"

definition CleanUp_main :: "world \<Rightarrow> ChallengeRequest option \<Rightarrow> unit call" where
  "CleanUp_main = CleanUp_body GetZone_main"

text \<open>The requests that change the zone.\<close>

definition mutating :: "http_request \<Rightarrow> bool" where
  "mutating r = (Method r = ''PUT'' \<or> Method r = ''DELETE'')"

section \<open>Notions used to state the properties\<close>

text \<open>A string without its last character if that is a dot, unchanged otherwise.\<close>

definition dropTrailingDot :: "string \<Rightarrow> string" where
  "dropTrailingDot s = (if s \<noteq> [] \<and> last s = CHR ''.'' then butlast s else s)"

text \<open>Reading a digit string back as a number; used to show that printing is injective.\<close>

definition undigits :: "string \<Rightarrow> nat" where
  "undigits s = foldl (\<lambda>a c. 10 * a + (of_char c - 48)) 0 s"

text \<open>
  A record matches a challenge when its type is 3 (TXT), its name is the relative
  hostname and its value is the key.
\<close>

definition matchesChallenge :: "ChallengeRequest \<Rightarrow> Record \<Rightarrow> bool" where
  "matchesChallenge ch r =
     (Record.Type r = 3 \<and> Record.Name r = hostname (ResolvedFQDN ch) (ResolvedZone ch) \<and>
      Record.Value r = Key ch)"

definition deletes :: "http_request list \<Rightarrow> http_request list" where
  "deletes tr = filter (\<lambda>q. Method q = ''DELETE'') tr"

text \<open>The bodies of the PUT requests among the requests sent.\<close>

definition putBodies :: "http_request list \<Rightarrow> json_object option list" where
  "putBodies tr = map Payload (filter (\<lambda>q. Method q = ''PUT'') tr)"

text \<open>The request that \<^verbatim>\<open>CleanUp\<close> builds for a zone ID and a record ID.\<close>

definition deleteRequest :: "world \<Rightarrow> int \<Rightarrow> int \<Rightarrow> http_request" where
  "deleteRequest w zoneID recordID =
     \<lparr>Method = ''DELETE'', URL = recordURL zoneID recordID,
      Header = [(''accept'', ''application/json''), (''AccessKey'', ApiKey w)],
      Payload = None\<rparr>"

subsection \<open>A provider to run the code against\<close>

text \<open>
  The request of the spec's scenarios, with a given key; a TXT record named
  \<^verbatim>\<open>_acme-challenge\<close>; a search result holding one zone, with ID 7; and a world in which
  every call succeeds with status 200 and the search decodes to a given result.
\<close>

definition exampleRequest :: "string \<Rightarrow> ChallengeRequest" where
  "exampleRequest key =
     \<lparr>ResolvedFQDN = ''_acme-challenge.example.com.'', ResolvedZone = ''example.com.'',
      Key = key\<rparr>"

definition txtRecord :: "int \<Rightarrow> string \<Rightarrow> Record" where
  "txtRecord i v =
     \<lparr>Record.ID = i, Type = 3, Ttl = 10, Value = v, Name = ''_acme-challenge'',
      Disabled = False\<rparr>"

definition exampleZone :: "Record list \<Rightarrow> ZoneResponse" where
  "exampleZone rs =
     \<lparr>Items = [\<lparr>Item.ID = 7, Domain = ''example.com'', Records = rs\<rparr>],
      CurrentPage = 1, TotalItems = 1, HasMoreItems = False\<rparr>"

definition exampleWorld :: "ZoneResponse \<Rightarrow> world" where
  "exampleWorld z =
     \<lparr>ApiKey = ''secret'',
      NewRequest_fails = (\<lambda>m u. None),
      ClientDo = (\<lambda>q. (Some \<lparr>StatusCode = 200, Body = (''{}'', None)\<rparr>, None)),
      Unmarshal = (\<lambda>b. (z, None))\<rparr>"

section \<open>Properties of the string functions\<close>

lemma HasSuffix_iff_suffix: "HasSuffix s suf \<longleftrightarrow> suffix suf s"
proof
  assume h: "HasSuffix s suf"
  then have "s = take (length s - length suf) s @ suf"
    by (metis HasSuffix_def append_take_drop_id)
  then show "suffix suf s"
    by (metis suffixI)
next
  assume "suffix suf s"
  then obtain p where "s = p @ suf"
    by (auto simp: suffix_def)
  then show "HasSuffix s suf"
    by (simp add: HasSuffix_def)
qed

lemma TrimSuffix_append [simp]: "TrimSuffix (p @ suf) suf = p"
  by (simp add: TrimSuffix_def HasSuffix_def)

lemma TrimSuffix_not_suffix: "\<not> suffix suf s \<Longrightarrow> TrimSuffix s suf = s"
  by (simp add: TrimSuffix_def HasSuffix_iff_suffix)

lemma TrimSuffix_dot:
  "TrimSuffix s ''.'' = (if s \<noteq> [] \<and> last s = CHR ''.'' then butlast s else s)"
proof (cases s rule: rev_cases)
  case Nil
  then show ?thesis by (simp add: TrimSuffix_def HasSuffix_def)
next
  case (snoc ys y)
  then show ?thesis by (simp add: TrimSuffix_def HasSuffix_def)
qed

section \<open>Printing integers is injective\<close>

lemma of_char_digit: "d < 10 \<Longrightarrow> of_char (digit d) = 48 + d"
  by (simp add: digit_def)

lemma undigits_snoc: "undigits (s @ [c]) = 10 * undigits s + (of_char c - 48)"
  by (simp add: undigits_def)

lemma undigits_udigits: "undigits (udigits n) = n"
proof (induction n rule: udigits.induct)
  case (1 n)
  show ?case
  proof (cases "n < 10")
    case True
    then show ?thesis
      by (subst udigits.simps) (simp add: undigits_def of_char_digit)
  next
    case False
    then have "undigits (udigits n) =
        10 * undigits (udigits (n div 10)) + (of_char (digit (n mod 10)) - 48)"
      by (subst udigits.simps) (simp add: undigits_snoc)
    also have "\<dots> = 10 * (n div 10) + n mod 10"
      using 1 False by (simp add: of_char_digit)
    finally show ?thesis by simp
  qed
qed

lemma udigits_inj: "udigits a = udigits b \<Longrightarrow> a = b"
  by (metis undigits_udigits)

lemma digit_not_minus: "d < 10 \<Longrightarrow> digit d \<noteq> CHR ''-''"
proof
  assume d: "d < 10" and "digit d = CHR ''-''"
  then have "of_char (digit d) = (of_char (CHR ''-'') :: nat)" by simp
  with d show False by (simp add: of_char_digit)
qed

lemma hd_udigits: "udigits n \<noteq> [] \<and> hd (udigits n) \<noteq> CHR ''-''"
proof (induction n rule: udigits.induct)
  case (1 n)
  show ?case
  proof (cases "n < 10")
    case True
    then show ?thesis
      by (subst (1 2) udigits.simps) (simp add: digit_not_minus)
  next
    case False
    with 1 show ?thesis
      by (subst (1 2) udigits.simps) simp
  qed
qed

lemma itoa_inj: "itoa a = itoa b \<Longrightarrow> a = b"
proof -
  assume e: "itoa a = itoa b"
  have neg: "udigits m \<noteq> CHR ''-'' # s" for m s
    using hd_udigits [of m] by (cases "udigits m") auto
  show ?thesis
  proof (cases "a < 0"; cases "b < 0")
    assume "a < 0" "b < 0"
    with e have "nat (- a) = nat (- b)" by (auto simp: itoa_def dest: udigits_inj)
    with \<open>a < 0\<close> \<open>b < 0\<close> show ?thesis by simp
  next
    assume "a < 0" "\<not> b < 0"
    with e neg [of "nat b" "udigits (nat (- a))"] show ?thesis by (simp add: itoa_def)
  next
    assume "\<not> a < 0" "b < 0"
    with e neg [of "nat a" "udigits (nat (- b))"] show ?thesis by (simp add: itoa_def)
  next
    assume "\<not> a < 0" "\<not> b < 0"
    with e have "nat a = nat b" by (auto simp: itoa_def dest: udigits_inj)
    with \<open>\<not> a < 0\<close> \<open>\<not> b < 0\<close> show ?thesis by simp
  qed
qed

lemma recordURL_inj: "recordURL z a = recordURL z b \<Longrightarrow> a = b"
  by (simp add: recordURL_def itoa_inj)

section \<open>What the zone lookup sends, and what CleanUp deletes\<close>

lemma findRecordID_find:
  "findRecordID rs (hostname (ResolvedFQDN ch) (ResolvedZone ch)) (Key ch) =
     (case find (matchesChallenge ch) rs of None \<Rightarrow> 0 | Some r \<Rightarrow> Record.ID r)"
  by (induction rs) (simp_all add: matchesChallenge_def)

lemma GetZone_part0_trace:
  "q \<in> set (snd (GetZone_part0 w zone cfg)) \<Longrightarrow>
     Method q = ''GET'' \<and> URL q = searchURL (searchTerm zone)"
  by (auto simp: GetZone_part0_def Let_def split: if_splits option.splits prod.splits)

lemma GetZone_main_trace:
  "q \<in> set (snd (GetZone_main w zone cfg)) \<Longrightarrow>
     Method q = ''GET'' \<and> URL q = searchURL (searchTerm zone)"
  by (auto simp: GetZone_main_def Let_def searchURL_def bunnyAPIBase_def
      split: if_splits option.splits prod.splits)

lemma deletes_GetZone_part0 [simp]: "deletes (snd (GetZone_part0 w zone cfg)) = []"
  by (auto simp: deletes_def filter_empty_conv dest: GetZone_part0_trace)

lemma deletes_GetZone_main [simp]: "deletes (snd (GetZone_main w zone cfg)) = []"
  by (auto simp: deletes_def filter_empty_conv dest: GetZone_main_trace)

lemma CleanUp_body_fetched:
  assumes "ApiKey w \<noteq> []"
    and "getZone w (ResolvedZone ch) \<lparr>APIKey = ApiKey w\<rparr> = (Returns data, tr)"
    and "Items data = item # rest"
  shows "CleanUp_body getZone w (Some ch) =
    (case find (matchesChallenge ch) (Records item) of
       None \<Rightarrow> (Returns (), tr)
     | Some r \<Rightarrow>
         if Record.ID r = 0 then (Returns (), tr)
         else (case NewRequest_fails w ''DELETE'' (recordURL (Item.ID item) (Record.ID r)) of
                 Some e \<Rightarrow> (Fails e, tr)
               | None \<Rightarrow>
                   (case snd (ClientDo w (deleteRequest w (Item.ID item) (Record.ID r))) of
                      Some e \<Rightarrow> (Fails e, tr @ [deleteRequest w (Item.ID item) (Record.ID r)])
                    | None \<Rightarrow> (Returns (), tr @ [deleteRequest w (Item.ID item) (Record.ID r)]))))"
  using assms
  by (simp add: CleanUp_body_def loadConfig_def findRecordID_find Let_def deleteRequest_def
      split: option.splits)

lemma CleanUp_body_not_fetched:
  assumes nd: "\<And>z c. deletes (snd (getZone w z c)) = []"
    and nf: "\<nexists>ch data tr item rest. chp = Some ch \<and> ApiKey w \<noteq> [] \<and>
      getZone w (ResolvedZone ch) \<lparr>APIKey = ApiKey w\<rparr> = (Returns data, tr) \<and>
      Items data = item # rest"
  shows "deletes (snd (CleanUp_body getZone w chp)) = []"
proof (cases "ApiKey w = []")
  case True
  then show ?thesis
    by (simp add: CleanUp_body_def loadConfig_def deletes_def)
next
  case key: False
  show ?thesis
  proof (cases chp)
    case None
    with key show ?thesis
      by (simp add: CleanUp_body_def loadConfig_def deletes_def)
  next
    case (Some ch)
    obtain out tr where g: "getZone w (ResolvedZone ch) \<lparr>APIKey = ApiKey w\<rparr> = (out, tr)"
      by (cases "getZone w (ResolvedZone ch) \<lparr>APIKey = ApiKey w\<rparr>")
    with nd [of "ResolvedZone ch" "\<lparr>APIKey = ApiKey w\<rparr>"] have tr: "deletes tr = []"
      by simp
    from nf Some key g have "\<forall>data. out = Returns data \<longrightarrow> Items data = []"
      by (metis list.exhaust)
    with Some key g tr show ?thesis
      by (cases out) (simp_all add: CleanUp_body_def loadConfig_def)
  qed
qed

lemma CleanUp_body_deletes:
  assumes nd: "\<And>z c. deletes (snd (getZone w z c)) = []"
  shows "length (deletes (snd (CleanUp_body getZone w chp))) \<le> 1 \<and>
     (\<forall>q \<in> set (deletes (snd (CleanUp_body getZone w chp))).
        \<exists>ch data tr item rest r.
          chp = Some ch \<and>
          getZone w (ResolvedZone ch) \<lparr>APIKey = ApiKey w\<rparr> = (Returns data, tr) \<and>
          Items data = item # rest \<and>
          find (matchesChallenge ch) (Records item) = Some r \<and>
          URL q = recordURL (Item.ID item) (Record.ID r) \<and>
          (distinct (map Record.ID (Records item)) \<longrightarrow>
             (\<forall>r' \<in> set (Records item). Record.Value r' \<noteq> Key ch \<longrightarrow>
                URL q \<noteq> recordURL (Item.ID item) (Record.ID r'))))"
proof (cases "\<exists>ch data tr item rest. chp = Some ch \<and> ApiKey w \<noteq> [] \<and>
      getZone w (ResolvedZone ch) \<lparr>APIKey = ApiKey w\<rparr> = (Returns data, tr) \<and>
      Items data = item # rest")
  case False
  with nd have "deletes (snd (CleanUp_body getZone w chp)) = []"
    by (rule CleanUp_body_not_fetched)
  then show ?thesis by simp
next
  case True
  then obtain ch data tr item rest where chp: "chp = Some ch" and key: "ApiKey w \<noteq> []"
    and g: "getZone w (ResolvedZone ch) \<lparr>APIKey = ApiKey w\<rparr> = (Returns data, tr)"
    and it: "Items data = item # rest"
    by blast
  from nd [of "ResolvedZone ch" "\<lparr>APIKey = ApiKey w\<rparr>"] g have tr: "deletes tr = []"
    by simp
  have c: "CleanUp_body getZone w (Some ch) = (case find (matchesChallenge ch) (Records item) of
       None \<Rightarrow> (Returns (), tr)
     | Some r \<Rightarrow>
         if Record.ID r = 0 then (Returns (), tr)
         else (case NewRequest_fails w ''DELETE'' (recordURL (Item.ID item) (Record.ID r)) of
                 Some e \<Rightarrow> (Fails e, tr)
               | None \<Rightarrow>
                   (case snd (ClientDo w (deleteRequest w (Item.ID item) (Record.ID r))) of
                      Some e \<Rightarrow> (Fails e, tr @ [deleteRequest w (Item.ID item) (Record.ID r)])
                    | None \<Rightarrow> (Returns (), tr @ [deleteRequest w (Item.ID item) (Record.ID r)]))))"
    using key g it by (rule CleanUp_body_fetched)
  show ?thesis
  proof (cases "find (matchesChallenge ch) (Records item)")
    case None
    with c tr chp show ?thesis by simp
  next
    case (Some r)
    let ?d = "deleteRequest w (Item.ID item) (Record.ID r)"
    have sub: "deletes (snd (CleanUp_body getZone w chp)) = [] \<or>
               deletes (snd (CleanUp_body getZone w chp)) = [?d]"
      using c tr chp Some
      by (auto simp: deletes_def deleteRequest_def split: option.splits)
    have r: "r \<in> set (Records item)" "matchesChallenge ch r"
      using Some by (auto simp: find_Some_iff)
    have other: "recordURL (Item.ID item) (Record.ID r) \<noteq> recordURL (Item.ID item) (Record.ID r')"
      if d: "distinct (map Record.ID (Records item))" and r': "r' \<in> set (Records item)"
        and v: "Record.Value r' \<noteq> Key ch" for r'
    proof
      assume "recordURL (Item.ID item) (Record.ID r) = recordURL (Item.ID item) (Record.ID r')"
      then have "Record.ID r = Record.ID r'" by (rule recordURL_inj)
      with d r(1) r' have "r = r'"
        by (meson distinct_map inj_onD)
      with r(2) v show False by (simp add: matchesChallenge_def)
    qed
    have "URL ?d = recordURL (Item.ID item) (Record.ID r)"
      by (simp add: deleteRequest_def)
    with sub chp g it Some other show ?thesis
      by (elim disjE) (simp, force)
  qed
qed

section \<open>The relative hostname\<close>

text \<open>
  C5, as stated: when the zone is not a suffix of the FQDN, the relative hostname is
  exactly the FQDN. This fails: the second \<^verbatim>\<open>TrimSuffix\<close> still removes the FQDN's
  trailing dot.
\<close>

theorem hostname_not_suffix_counterexample:
  "\<not> suffix ''example.org.'' ''_acme-challenge.example.com.'' \<and>
   hostname ''_acme-challenge.example.com.'' ''example.org.'' \<noteq> ''_acme-challenge.example.com.''"
  by code_simp

text \<open>
  C5, amended: the relative hostname of an FQDN \<open>p @ zone\<close> is \<open>p\<close> without one trailing
  dot; when the zone is not a suffix of the FQDN, stripping the zone changes nothing and
  the relative hostname is the FQDN without one trailing dot (the FQDN itself only when
  it does not end in a dot).
\<close>

theorem hostname_strips_zone_then_dot:
  "hostname (p @ zone) zone = dropTrailingDot p \<and>
   (\<not> suffix zone fqdn \<longrightarrow>
      TrimSuffix fqdn zone = fqdn \<and> hostname fqdn zone = dropTrailingDot fqdn)"
  by (simp add: hostname_def TrimSuffix_dot dropTrailingDot_def TrimSuffix_not_suffix)

theorem hostname_strips_zone_then_dot_witness:
  "hostname (''_acme-challenge.'' @ ''example.com.'') ''example.com.'' = ''_acme-challenge'' \<and>
   \<not> suffix ''example.com.'' ''a.example.org.'' \<and>
   hostname ''a.example.org.'' ''example.com.'' = ''a.example.org''"
proof -
  have n: "\<not> suffix ''example.com.'' ''a.example.org.''"
    by code_simp
  show ?thesis
    using n hostname_strips_zone_then_dot
      [of "''_acme-challenge.''" "''example.com.''" "''a.example.org.''"]
    by (simp add: dropTrailingDot_def)
qed

section \<open>CleanUp deletes at most the first matching record\<close>

text \<open>Scenario C of the spec, run in both files.\<close>

lemma scenario_C_part0:
  "CleanUp_part0 (exampleWorld (exampleZone [txtRecord 11 ''tok1'', txtRecord 12 ''tok2'']))
     (Some (exampleRequest ''tok2'')) =
   (Returns (),
    [\<lparr>Method = ''GET'',
      URL = ''https://api.bunny.net/dnszone?page=1&perPage=1&search=example.com'',
      Header = [(''Accept'', ''application/json''), (''AccessKey'', ''secret'')],
      Payload = None\<rparr>,
     \<lparr>Method = ''DELETE'', URL = ''https://api.bunny.net/dnszone/7/records/12'',
      Header = [(''accept'', ''application/json''), (''AccessKey'', ''secret'')],
      Payload = None\<rparr>])"
  by code_simp

lemma scenario_C_main:
  "CleanUp_main (exampleWorld (exampleZone [txtRecord 11 ''tok1'', txtRecord 12 ''tok2'']))
     (Some (exampleRequest ''tok2'')) =
   (Returns (),
    [\<lparr>Method = ''GET'',
      URL = ''https://api.bunny.net/dnszone?page=1&perPage=1&search=example.com'',
      Header = [(''accept'', ''application/json''), (''AccessKey'', ''secret'')],
      Payload = None\<rparr>,
     \<lparr>Method = ''DELETE'', URL = ''https://api.bunny.net/dnszone/7/records/12'',
      Header = [(''accept'', ''application/json''), (''AccessKey'', ''secret'')],
      Payload = None\<rparr>])"
  by code_simp

lemma scenario_C_zone_part0:
  "GetZone_part0 (exampleWorld (exampleZone rs)) ''example.com.'' \<lparr>APIKey = ''secret''\<rparr> =
   (Returns (exampleZone rs),
    [\<lparr>Method = ''GET'',
      URL = ''https://api.bunny.net/dnszone?page=1&perPage=1&search=example.com'',
      Header = [(''Accept'', ''application/json''), (''AccessKey'', ''secret'')],
      Payload = None\<rparr>])"
  by (simp add: GetZone_part0_def exampleWorld_def exampleZone_def searchTerm_def searchURL_def
      bunnyAPIBase_def Let_def)

lemma scenario_C_zone_main:
  "GetZone_main (exampleWorld (exampleZone rs)) ''example.com.'' \<lparr>APIKey = ''secret''\<rparr> =
   (Returns (exampleZone rs),
    [\<lparr>Method = ''GET'',
      URL = ''https://api.bunny.net/dnszone?page=1&perPage=1&search=example.com'',
      Header = [(''accept'', ''application/json''), (''AccessKey'', ''secret'')],
      Payload = None\<rparr>])"
  by (simp add: GetZone_main_def exampleWorld_def exampleZone_def searchTerm_def Let_def)

text \<open>
  C1: for every request and every record list, \<^verbatim>\<open>CleanUp\<close> (of either file) sends at
  most one DELETE; a DELETE it sends is for the first record, in the order the provider
  returned them, whose type is 3, whose name is the relative hostname and whose value is
  the request's key; and, record IDs being distinct, it is not a DELETE for any record
  whose value differs from the key.
\<close>

theorem CleanUp_deletes_at_most_first_match:
  assumes version: "cleanUp = CleanUp_part0 \<and> getZone = GetZone_part0 \<or>
                    cleanUp = CleanUp_main \<and> getZone = GetZone_main"
  shows "length (deletes (snd (cleanUp w chp))) \<le> 1 \<and>
     (\<forall>q \<in> set (deletes (snd (cleanUp w chp))).
        \<exists>ch data tr item rest r.
          chp = Some ch \<and>
          getZone w (ResolvedZone ch) \<lparr>APIKey = ApiKey w\<rparr> = (Returns data, tr) \<and>
          Items data = item # rest \<and>
          find (matchesChallenge ch) (Records item) = Some r \<and>
          URL q = recordURL (Item.ID item) (Record.ID r) \<and>
          (distinct (map Record.ID (Records item)) \<longrightarrow>
             (\<forall>r' \<in> set (Records item). Record.Value r' \<noteq> Key ch \<longrightarrow>
                URL q \<noteq> recordURL (Item.ID item) (Record.ID r'))))"
  using version
proof (elim disjE conjE)
  assume "cleanUp = CleanUp_part0" "getZone = GetZone_part0"
  then show ?thesis
    using CleanUp_body_deletes [of GetZone_part0 w chp]
    by (simp add: CleanUp_part0_def)
next
  assume "cleanUp = CleanUp_main" "getZone = GetZone_main"
  then show ?thesis
    using CleanUp_body_deletes [of GetZone_main w chp]
    by (simp add: CleanUp_main_def)
qed

theorem CleanUp_deletes_at_most_first_match_witness:
  "map URL (deletes (snd (CleanUp_part0
      (exampleWorld (exampleZone [txtRecord 11 ''tok1'', txtRecord 12 ''tok2'']))
      (Some (exampleRequest ''tok2''))))) = [recordURL 7 12] \<and>
   map URL (deletes (snd (CleanUp_main
      (exampleWorld (exampleZone [txtRecord 11 ''tok1'', txtRecord 12 ''tok2'']))
      (Some (exampleRequest ''tok2''))))) = [recordURL 7 12] \<and>
   recordURL 7 12 \<noteq> recordURL 7 11 \<and>
   distinct (map Record.ID [txtRecord 11 ''tok1'', txtRecord 12 ''tok2'']) \<and>
   Record.Value (txtRecord 11 ''tok1'') \<noteq> Key (exampleRequest ''tok2'')"
proof -
  let ?rs = "[txtRecord 11 ''tok1'', txtRecord 12 ''tok2'']"
  let ?w = "exampleWorld (exampleZone ?rs)"
  let ?ch = "exampleRequest ''tok2''"
  have d: "distinct (map Record.ID ?rs)"
    by (simp add: txtRecord_def)
  have v: "Record.Value (txtRecord 11 ''tok1'') \<noteq> Key ?ch"
    by (simp add: txtRecord_def exampleRequest_def)
  have k: "ApiKey ?w = ''secret''"
    by (simp add: exampleWorld_def)
  have z: "ResolvedZone ?ch = ''example.com.''"
    by (simp add: exampleRequest_def)
  have main: "map URL (deletes (snd (cleanUp ?w (Some ?ch)))) = [recordURL 7 12] \<and>
      recordURL 7 12 \<noteq> recordURL 7 11"
    if version: "cleanUp = CleanUp_part0 \<and> getZone = GetZone_part0 \<or>
                 cleanUp = CleanUp_main \<and> getZone = GetZone_main"
    for cleanUp getZone
  proof -
    have run: "map URL (deletes (snd (cleanUp ?w (Some ?ch)))) =
                 [''https://api.bunny.net/dnszone/7/records/12'']"
      using version scenario_C_part0 scenario_C_main by (auto simp: deletes_def)
    have g: "getZone ?w ''example.com.'' \<lparr>APIKey = ''secret''\<rparr> =
        (Returns (exampleZone ?rs), snd (getZone ?w ''example.com.'' \<lparr>APIKey = ''secret''\<rparr>))"
      using version scenario_C_zone_part0 scenario_C_zone_main by auto
    from run obtain q where q: "deletes (snd (cleanUp ?w (Some ?ch))) = [q]"
      by auto
    then have "q \<in> set (deletes (snd (cleanUp ?w (Some ?ch))))"
      by simp
    with CleanUp_deletes_at_most_first_match [OF version, of ?w "Some ?ch"]
    obtain ch data tr item rest r where
      ch: "Some ?ch = Some ch"
      "getZone ?w (ResolvedZone ch) \<lparr>APIKey = ApiKey ?w\<rparr> = (Returns data, tr)"
      "Items data = item # rest"
      "find (matchesChallenge ch) (Records item) = Some r"
      "URL q = recordURL (Item.ID item) (Record.ID r)"
      "distinct (map Record.ID (Records item)) \<longrightarrow>
         (\<forall>r' \<in> set (Records item). Record.Value r' \<noteq> Key ch \<longrightarrow>
            URL q \<noteq> recordURL (Item.ID item) (Record.ID r'))"
      by blast
    from ch(1) have [simp]: "ch = ?ch" by simp
    from ch(2) g k z have data: "data = exampleZone ?rs" by simp
    with ch(3) have item: "item = \<lparr>Item.ID = 7, Domain = ''example.com'', Records = ?rs\<rparr>"
      by (simp add: exampleZone_def)
    from ch(4) item have r: "r = txtRecord 12 ''tok2''"
      by (simp add: matchesChallenge_def txtRecord_def exampleRequest_def hostname_def
          TrimSuffix_def HasSuffix_def)
    from ch(5) item r q have u: "map URL (deletes (snd (cleanUp ?w (Some ?ch)))) = [recordURL 7 12]"
      by (simp add: txtRecord_def)
    from ch(6) item d v ch(5) r have "recordURL 7 12 \<noteq> recordURL 7 11"
      by (simp add: txtRecord_def)
    with u show ?thesis
      by simp
  qed
  from main [of CleanUp_part0 GetZone_part0] main [of CleanUp_main GetZone_main] d v
  show ?thesis
    by simp
qed

section \<open>CleanUp with nothing to delete\<close>

lemma mutating_GetZone_part0: "q \<in> set (snd (GetZone_part0 w zone cfg)) \<Longrightarrow> \<not> mutating q"
  by (auto simp: mutating_def dest: GetZone_part0_trace)

lemma mutating_GetZone_main: "q \<in> set (snd (GetZone_main w zone cfg)) \<Longrightarrow> \<not> mutating q"
  by (auto simp: mutating_def dest: GetZone_main_trace)

lemma CleanUp_body_nothing_to_delete:
  assumes "ApiKey w \<noteq> []"
    and "getZone w (ResolvedZone ch) \<lparr>APIKey = ApiKey w\<rparr> = (Returns data, tr)"
    and "Items data = item # rest"
    and "find (matchesChallenge ch) (Records item) = None \<or>
         (\<exists>r. find (matchesChallenge ch) (Records item) = Some r \<and> Record.ID r = 0)"
  shows "CleanUp_body getZone w (Some ch) = (Returns (), tr)"
  using assms(4) CleanUp_body_fetched [of w getZone ch data tr item rest, OF assms(1-3)]
  by auto

text \<open>
  C8: when the zone that the lookup returned holds no record with type 3, the relative
  hostname as name and the key as value, \<^verbatim>\<open>CleanUp\<close> (of either file) returns nil and
  has sent nothing but the lookup: no DELETE, no request that changes the zone. The zone
  is left as it was, so the same holds of the next invocation.
\<close>

theorem CleanUp_no_match_is_noop:
  assumes version: "cleanUp = CleanUp_part0 \<and> getZone = GetZone_part0 \<or>
                    cleanUp = CleanUp_main \<and> getZone = GetZone_main"
    and key: "ApiKey w \<noteq> []"
    and zone: "getZone w (ResolvedZone ch) \<lparr>APIKey = ApiKey w\<rparr> = (Returns data, tr)"
    and item: "Items data = item # rest"
    and nomatch: "\<forall>r \<in> set (Records item). \<not> matchesChallenge ch r"
  shows "fst (cleanUp w (Some ch)) = Returns () \<and>
         (\<forall>q \<in> set (snd (cleanUp w (Some ch))). \<not> mutating q) \<and>
         deletes (snd (cleanUp w (Some ch))) = [] \<and>
         snd (cleanUp w (Some ch)) = tr"
proof -
  from nomatch have "find (matchesChallenge ch) (Records item) = None"
    by (simp add: find_None_iff)
  with key zone item have c: "CleanUp_body getZone w (Some ch) = (Returns (), tr)"
    by (intro CleanUp_body_nothing_to_delete) auto
  from zone have tr: "tr = snd (getZone w (ResolvedZone ch) \<lparr>APIKey = ApiKey w\<rparr>)"
    by simp
  from version have m: "\<forall>q \<in> set tr. \<not> mutating q"
    unfolding tr using mutating_GetZone_part0 mutating_GetZone_main by blast
  then have "deletes tr = []"
    by (auto simp: deletes_def mutating_def filter_empty_conv)
  with version c m show ?thesis
    by (auto simp: CleanUp_part0_def CleanUp_main_def)
qed

theorem CleanUp_no_match_is_noop_witness:
  "ApiKey (exampleWorld (exampleZone [txtRecord 11 ''tok1''])) \<noteq> [] \<and>
   \<not> matchesChallenge (exampleRequest ''tok2'') (txtRecord 11 ''tok1'') \<and>
   fst (GetZone_part0 (exampleWorld (exampleZone [txtRecord 11 ''tok1'']))
          (ResolvedZone (exampleRequest ''tok2''))
          \<lparr>APIKey = ApiKey (exampleWorld (exampleZone [txtRecord 11 ''tok1'']))\<rparr>) =
     Returns (exampleZone [txtRecord 11 ''tok1'']) \<and>
   fst (CleanUp_part0 (exampleWorld (exampleZone [txtRecord 11 ''tok1'']))
          (Some (exampleRequest ''tok2''))) = Returns () \<and>
   map Method (snd (CleanUp_part0 (exampleWorld (exampleZone [txtRecord 11 ''tok1'']))
          (Some (exampleRequest ''tok2'')))) = [''GET''] \<and>
   fst (GetZone_main (exampleWorld (exampleZone [txtRecord 11 ''tok1'']))
          (ResolvedZone (exampleRequest ''tok2''))
          \<lparr>APIKey = ApiKey (exampleWorld (exampleZone [txtRecord 11 ''tok1'']))\<rparr>) =
     Returns (exampleZone [txtRecord 11 ''tok1'']) \<and>
   fst (CleanUp_main (exampleWorld (exampleZone [txtRecord 11 ''tok1'']))
          (Some (exampleRequest ''tok2''))) = Returns () \<and>
   map Method (snd (CleanUp_main (exampleWorld (exampleZone [txtRecord 11 ''tok1'']))
          (Some (exampleRequest ''tok2'')))) = [''GET'']"
proof -
  let ?rs = "[txtRecord 11 ''tok1'']"
  let ?w = "exampleWorld (exampleZone ?rs)"
  let ?ch = "exampleRequest ''tok2''"
  have main: "ApiKey ?w \<noteq> [] \<and>
      fst (getZone ?w (ResolvedZone ?ch) \<lparr>APIKey = ApiKey ?w\<rparr>) = Returns (exampleZone ?rs) \<and>
      \<not> matchesChallenge ?ch (txtRecord 11 ''tok1'') \<and>
      fst (cleanUp ?w (Some ?ch)) = Returns () \<and>
      map Method (snd (cleanUp ?w (Some ?ch))) = [''GET'']"
    if version: "cleanUp = CleanUp_part0 \<and> getZone = GetZone_part0 \<or>
                 cleanUp = CleanUp_main \<and> getZone = GetZone_main"
    for cleanUp getZone
  proof -
  have k: "ApiKey ?w = ''secret''"
    by (simp add: exampleWorld_def)
  have z: "ResolvedZone ?ch = ''example.com.''"
    by (simp add: exampleRequest_def)
  obtain tr where g: "getZone ?w (ResolvedZone ?ch) \<lparr>APIKey = ApiKey ?w\<rparr> =
      (Returns (exampleZone ?rs), tr)" and tr: "map Method tr = [''GET'']"
    using version scenario_C_zone_part0 [of ?rs] scenario_C_zone_main [of ?rs] k z by auto
  have i: "Items (exampleZone ?rs) = \<lparr>Item.ID = 7, Domain = ''example.com'', Records = ?rs\<rparr> # []"
    by (simp add: exampleZone_def)
  have n: "\<forall>r \<in> set ?rs. \<not> matchesChallenge ?ch r"
    by (simp add: matchesChallenge_def txtRecord_def exampleRequest_def)
  have key: "ApiKey ?w \<noteq> []"
    using k by simp
  have n': "\<forall>r \<in> set (Records \<lparr>Item.ID = 7, Domain = ''example.com'', Records = ?rs\<rparr>).
              \<not> matchesChallenge ?ch r"
    using n by simp
  note t = CleanUp_no_match_is_noop [OF version key g i n']
  with key g n tr show ?thesis
    by simp
  qed
  from main [of CleanUp_part0 GetZone_part0] main [of CleanUp_main GetZone_main]
  show ?thesis
    by simp
qed

text \<open>
  C10: record ID 0 is the not-found sentinel. When the first matching record of the zone
  has ID 0, \<^verbatim>\<open>CleanUp\<close> (of either file) returns nil and sends no DELETE: the outcome
  it has when no record matches.
\<close>

theorem CleanUp_record_ID_zero_is_not_deleted:
  assumes version: "cleanUp = CleanUp_part0 \<and> getZone = GetZone_part0 \<or>
                    cleanUp = CleanUp_main \<and> getZone = GetZone_main"
    and key: "ApiKey w \<noteq> []"
    and zone: "getZone w (ResolvedZone ch) \<lparr>APIKey = ApiKey w\<rparr> = (Returns data, tr)"
    and item: "Items data = item # rest"
    and first: "find (matchesChallenge ch) (Records item) = Some r"
    and zero: "Record.ID r = 0"
  shows "cleanUp w (Some ch) = (Returns (), tr) \<and> deletes (snd (cleanUp w (Some ch))) = []"
proof -
  from first zero key zone item have c: "CleanUp_body getZone w (Some ch) = (Returns (), tr)"
    by (intro CleanUp_body_nothing_to_delete) auto
  from zone have "tr = snd (getZone w (ResolvedZone ch) \<lparr>APIKey = ApiKey w\<rparr>)"
    by simp
  with version have "deletes tr = []"
    by auto
  with version c show ?thesis
    by (auto simp: CleanUp_part0_def CleanUp_main_def)
qed

theorem CleanUp_record_ID_zero_is_not_deleted_witness:
  "find (matchesChallenge (exampleRequest ''tok1'')) [txtRecord 0 ''tok1''] =
     Some (txtRecord 0 ''tok1'') \<and>
   Record.ID (txtRecord 0 ''tok1'') = 0 \<and>
   fst (CleanUp_part0 (exampleWorld (exampleZone [txtRecord 0 ''tok1'']))
          (Some (exampleRequest ''tok1''))) = Returns () \<and>
   deletes (snd (CleanUp_part0 (exampleWorld (exampleZone [txtRecord 0 ''tok1'']))
          (Some (exampleRequest ''tok1'')))) = [] \<and>
   fst (CleanUp_main (exampleWorld (exampleZone [txtRecord 0 ''tok1'']))
          (Some (exampleRequest ''tok1''))) = Returns () \<and>
   deletes (snd (CleanUp_main (exampleWorld (exampleZone [txtRecord 0 ''tok1'']))
          (Some (exampleRequest ''tok1'')))) = []"
proof -
  let ?rs = "[txtRecord 0 ''tok1'']"
  let ?w = "exampleWorld (exampleZone ?rs)"
  let ?ch = "exampleRequest ''tok1''"
  have main: "find (matchesChallenge ?ch) ?rs = Some (txtRecord 0 ''tok1'') \<and>
      Record.ID (txtRecord 0 ''tok1'') = 0 \<and>
      fst (cleanUp ?w (Some ?ch)) = Returns () \<and>
      deletes (snd (cleanUp ?w (Some ?ch))) = []"
    if version: "cleanUp = CleanUp_part0 \<and> getZone = GetZone_part0 \<or>
                 cleanUp = CleanUp_main \<and> getZone = GetZone_main"
    for cleanUp getZone
  proof -
  have k: "ApiKey ?w = ''secret''"
    by (simp add: exampleWorld_def)
  have z: "ResolvedZone ?ch = ''example.com.''"
    by (simp add: exampleRequest_def)
  obtain tr where g: "getZone ?w (ResolvedZone ?ch) \<lparr>APIKey = ApiKey ?w\<rparr> =
      (Returns (exampleZone ?rs), tr)"
    using version scenario_C_zone_part0 [of ?rs] scenario_C_zone_main [of ?rs] k z by auto
  have i: "Items (exampleZone ?rs) = \<lparr>Item.ID = 7, Domain = ''example.com'', Records = ?rs\<rparr> # []"
    by (simp add: exampleZone_def)
  have f: "find (matchesChallenge ?ch) ?rs = Some (txtRecord 0 ''tok1'')"
    by (simp add: matchesChallenge_def txtRecord_def exampleRequest_def hostname_def
        TrimSuffix_def HasSuffix_def)
  have f': "find (matchesChallenge ?ch)
      (Records \<lparr>Item.ID = 7, Domain = ''example.com'', Records = ?rs\<rparr>) = Some (txtRecord 0 ''tok1'')"
    using f by simp
  have zero: "Record.ID (txtRecord 0 ''tok1'') = 0"
    by (simp add: txtRecord_def)
  have key: "ApiKey ?w \<noteq> []"
    using k by simp
  note t = CleanUp_record_ID_zero_is_not_deleted [OF version key g i f' zero]
  with f zero show ?thesis
    by auto
  qed
  from main [of CleanUp_part0 GetZone_part0] main [of CleanUp_main GetZone_main]
  show ?thesis
    by simp
qed

section \<open>The search term of the zone lookup\<close>

lemma searchTerm_dot [simp]: "searchTerm (p @ ''.'') = p"
  by (simp add: searchTerm_def)

lemma searchTerm_no_dot: "zone \<noteq> [] \<Longrightarrow> \<nexists>p. zone = p @ ''.'' \<Longrightarrow> searchTerm zone = zone"
  by (cases zone rule: rev_cases) (auto simp: searchTerm_def)

lemma GetZone_part0_sends:
  "zone \<noteq> [] \<Longrightarrow> NewRequest_fails w ''GET'' (searchURL (searchTerm zone)) = None \<Longrightarrow>
     length (snd (GetZone_part0 w zone cfg)) = 1"
  by (auto simp: GetZone_part0_def Let_def split: option.splits prod.splits)

lemma GetZone_main_sends:
  "zone \<noteq> [] \<Longrightarrow> NewRequest_fails w ''GET'' (searchURL (searchTerm zone)) = None \<Longrightarrow>
     length (snd (GetZone_main w zone cfg)) = 1"
  by (auto simp: GetZone_main_def Let_def searchURL_def bunnyAPIBase_def
      split: option.splits prod.splits)

lemma GetZone_empty_zone:
  "GetZone_part0 w [] cfg = (Panics IndexOutOfRange, []) \<and>
   GetZone_main w [] cfg = (Panics IndexOutOfRange, [])"
  by (simp add: GetZone_part0_def GetZone_main_def)

text \<open>
  C6: every request that \<^verbatim>\<open>GetZone\<close> (of either file) sends is a GET of the search
  URL; for a zone name \<open>p @ ''.''\<close> the search term is \<open>p\<close>, the name with exactly one
  trailing dot removed, and for a zone name not ending in a dot the search term is the
  name unchanged. For a non-empty zone name whose request can be built, exactly one such
  request is sent. (On the empty string, which is no zone name, \<^verbatim>\<open>GetZone\<close> panics before
  it sends anything: \<open>GetZone_empty_zone\<close>.)
\<close>

theorem GetZone_search_term:
  assumes version: "getZone = GetZone_part0 \<or> getZone = GetZone_main"
  shows "(\<forall>q \<in> set (snd (getZone w zone cfg)).
            Method q = ''GET'' \<and>
            (\<forall>p. zone = p @ ''.'' \<longrightarrow>
               URL q = ''https://api.bunny.net/dnszone?page=1&perPage=1&search='' @ p) \<and>
            ((\<nexists>p. zone = p @ ''.'') \<longrightarrow>
               URL q = ''https://api.bunny.net/dnszone?page=1&perPage=1&search='' @ zone)) \<and>
         (zone \<noteq> [] \<and> NewRequest_fails w ''GET'' (searchURL (searchTerm zone)) = None \<longrightarrow>
            length (snd (getZone w zone cfg)) = 1)"
proof (intro conjI ballI impI)
  fix q
  assume "q \<in> set (snd (getZone w zone cfg))"
  with version have q: "Method q = ''GET''" "URL q = searchURL (searchTerm zone)" "zone \<noteq> []"
    using GetZone_part0_trace [of q w zone cfg] GetZone_main_trace [of q w zone cfg]
      GetZone_empty_zone [of w cfg]
    by auto
  show "Method q = ''GET''"
    by (rule q)
  show "\<forall>p. zone = p @ ''.'' \<longrightarrow>
          URL q = ''https://api.bunny.net/dnszone?page=1&perPage=1&search='' @ p"
    using q by (auto simp: searchURL_def bunnyAPIBase_def)
  show "URL q = ''https://api.bunny.net/dnszone?page=1&perPage=1&search='' @ zone"
    if "\<nexists>p. zone = p @ ''.''"
    using q that by (simp add: searchTerm_no_dot searchURL_def bunnyAPIBase_def)
next
  assume "zone \<noteq> [] \<and> NewRequest_fails w ''GET'' (searchURL (searchTerm zone)) = None"
  with version show "length (snd (getZone w zone cfg)) = 1"
    using GetZone_part0_sends GetZone_main_sends by blast
qed

theorem GetZone_search_term_witness:
  "(\<nexists>p. ''example.com'' = p @ ''.'') \<and>
   map URL (snd (GetZone_part0 (exampleWorld (exampleZone [])) (''example.com'' @ ''.'')
                   \<lparr>APIKey = ''secret''\<rparr>)) =
     [''https://api.bunny.net/dnszone?page=1&perPage=1&search=example.com''] \<and>
   map URL (snd (GetZone_part0 (exampleWorld (exampleZone [])) ''example.com''
                   \<lparr>APIKey = ''secret''\<rparr>)) =
     [''https://api.bunny.net/dnszone?page=1&perPage=1&search=example.com''] \<and>
   map URL (snd (GetZone_main (exampleWorld (exampleZone [])) (''example.com'' @ ''.'')
                   \<lparr>APIKey = ''secret''\<rparr>)) =
     [''https://api.bunny.net/dnszone?page=1&perPage=1&search=example.com''] \<and>
   map URL (snd (GetZone_main (exampleWorld (exampleZone [])) ''example.com''
                   \<lparr>APIKey = ''secret''\<rparr>)) =
     [''https://api.bunny.net/dnszone?page=1&perPage=1&search=example.com'']"
proof -
  let ?w = "exampleWorld (exampleZone [])"
  let ?cfg = "\<lparr>APIKey = ''secret''\<rparr>"
  have main: "map URL (snd (getZone ?w (''example.com'' @ ''.'') ?cfg)) =
       [''https://api.bunny.net/dnszone?page=1&perPage=1&search=example.com''] \<and>
     (\<nexists>p. ''example.com'' = p @ ''.'') \<and>
     map URL (snd (getZone ?w ''example.com'' ?cfg)) =
       [''https://api.bunny.net/dnszone?page=1&perPage=1&search=example.com'']"
    if version: "getZone = GetZone_part0 \<or> getZone = GetZone_main" for getZone
  proof -
  have nr: "NewRequest_fails ?w m u = None" for m u
    by (simp add: exampleWorld_def)
  have nd: "\<nexists>p. ''example.com'' = p @ ''.''"
    by (auto simp: append_eq_Cons_conv Cons_eq_append_conv)
  note t1 = GetZone_search_term [OF version, of ?w "''example.com'' @ ''.''" ?cfg]
  note t2 = GetZone_search_term [OF version, of ?w "''example.com''" ?cfg]
  from t1 nr obtain q1 where q1: "snd (getZone ?w (''example.com'' @ ''.'') ?cfg) = [q1]"
    by (auto simp: length_Suc_conv)
  from t2 nr obtain q2 where q2: "snd (getZone ?w ''example.com'' ?cfg) = [q2]"
    by (auto simp: length_Suc_conv)
  from t1 q1 have u1: "URL q1 = ''https://api.bunny.net/dnszone?page=1&perPage=1&search='' @ ''example.com''"
    by simp
  from t2 q2 nd have u2: "URL q2 = ''https://api.bunny.net/dnszone?page=1&perPage=1&search='' @ ''example.com''"
    by simp
  from q1 q2 u1 u2 nd show ?thesis
    by simp
  qed
  from main [of GetZone_part0] main [of GetZone_main]
  show ?thesis
    by simp
qed

section \<open>What Present sends\<close>

lemma snd_GetZoneID_body [simp]: "snd (GetZoneID_body r) = snd r"
  by (auto simp: GetZoneID_body_def split: prod.splits outcome.splits list.splits)

lemma GetZoneID_part0_trace:
  "q \<in> set (snd (GetZoneID_part0 w zone cfg)) \<Longrightarrow> Method q = ''GET''"
  by (simp add: GetZoneID_part0_def GetZone_part0_trace)

lemma GetZoneID_main_trace:
  "q \<in> set (snd (GetZoneID_main w zone cfg)) \<Longrightarrow> Method q = ''GET''"
  by (simp add: GetZoneID_main_def GetZone_main_trace)

lemma Present_send_trace:
  "\<exists>qs. snd (Present_send w url payload tr) = tr @ qs \<and>
        (\<forall>q \<in> set qs. Method q = ''PUT'' \<and> URL q = url \<and> Payload q = Some payload)"
  by (auto simp: Present_send_def Let_def split: option.splits prod.splits)

lemma Present_send_sends:
  "NewRequest_fails w ''PUT'' url = None \<Longrightarrow>
     \<exists>q. snd (Present_send w url payload tr) = tr @ [q] \<and>
         Method q = ''PUT'' \<and> URL q = url \<and> Payload q = Some payload"
  by (auto simp: Present_send_def Let_def split: option.splits prod.splits)

lemma Present_part0_puts:
  assumes "q \<in> set (snd (Present_part0 w (Some ch)))" and "Method q = ''PUT''"
  shows "Payload q = Some (Marshal_Record (Present_record_part0 ch))"
proof (cases "loadConfig w")
  case (Returns cfg)
  obtain out tr where g: "GetZoneID_part0 w (ResolvedZone ch) cfg = (out, tr)"
    by (cases "GetZoneID_part0 w (ResolvedZone ch) cfg")
  then have tr: "\<forall>x \<in> set tr. Method x = ''GET''"
    using GetZoneID_part0_trace [of _ w "ResolvedZone ch" cfg] by simp
  show ?thesis
  proof (cases out)
    case (Returns zoneID)
    obtain qs where "snd (Present_send w (recordsURL zoneID)
          (Marshal_Record (Present_record_part0 ch)) tr) = tr @ qs"
      and "\<forall>q \<in> set qs. Method q = ''PUT'' \<and> URL q = recordsURL zoneID \<and>
             Payload q = Some (Marshal_Record (Present_record_part0 ch))"
      using Present_send_trace by blast
    with assms tr g Returns \<open>loadConfig w = Returns cfg\<close> show ?thesis
      by (auto simp: Present_part0_def)
  qed (use assms tr g \<open>loadConfig w = Returns cfg\<close> in \<open>auto simp: Present_part0_def\<close>)
qed (use assms in \<open>auto simp: Present_part0_def\<close>)

lemma Present_main_puts:
  assumes "q \<in> set (snd (Present_main w (Some ch)))" and "Method q = ''PUT''"
  shows "Payload q = Some (Marshal_PutRecord (Present_record_main ch))"
proof (cases "loadConfig w")
  case (Returns cfg)
  obtain out tr where g: "GetZoneID_main w (ResolvedZone ch) cfg = (out, tr)"
    by (cases "GetZoneID_main w (ResolvedZone ch) cfg")
  then have tr: "\<forall>x \<in> set tr. Method x = ''GET''"
    using GetZoneID_main_trace [of _ w "ResolvedZone ch" cfg] by simp
  show ?thesis
  proof (cases out)
    case (Returns zoneID)
    obtain qs where "snd (Present_send w (recordsURL zoneID)
          (Marshal_PutRecord (Present_record_main ch)) tr) = tr @ qs"
      and "\<forall>q \<in> set qs. Method q = ''PUT'' \<and> URL q = recordsURL zoneID \<and>
             Payload q = Some (Marshal_PutRecord (Present_record_main ch))"
      using Present_send_trace by blast
    with assms tr g Returns \<open>loadConfig w = Returns cfg\<close> show ?thesis
      by (auto simp: Present_main_def)
  qed (use assms tr g \<open>loadConfig w = Returns cfg\<close> in \<open>auto simp: Present_main_def\<close>)
qed (use assms in \<open>auto simp: Present_main_def\<close>)

lemma Present_part0_sends:
  assumes "ApiKey w \<noteq> []"
    and "GetZoneID_part0 w (ResolvedZone ch) \<lparr>APIKey = ApiKey w\<rparr> = (Returns zid, tr)"
    and "NewRequest_fails w ''PUT'' (recordsURL zid) = None"
  shows "\<exists>q. snd (Present_part0 w (Some ch)) = tr @ [q] \<and> Method q = ''PUT'' \<and>
             URL q = recordsURL zid \<and>
             Payload q = Some (Marshal_Record (Present_record_part0 ch))"
  using assms Present_send_sends [of w "recordsURL zid" "Marshal_Record (Present_record_part0 ch)" tr]
  by (simp add: Present_part0_def loadConfig_def)

lemma Present_main_sends:
  assumes "ApiKey w \<noteq> []"
    and "GetZoneID_main w (ResolvedZone ch) \<lparr>APIKey = ApiKey w\<rparr> = (Returns zid, tr)"
    and "NewRequest_fails w ''PUT'' (recordsURL zid) = None"
  shows "\<exists>q. snd (Present_main w (Some ch)) = tr @ [q] \<and> Method q = ''PUT'' \<and>
             URL q = recordsURL zid \<and>
             Payload q = Some (Marshal_PutRecord (Present_record_main ch))"
  using assms Present_send_sends [of w "recordsURL zid" "Marshal_PutRecord (Present_record_main ch)" tr]
  by (simp add: Present_main_def loadConfig_def)

lemma hostname_scenario_A:
  "hostname ''_acme-challenge.example.com.'' ''example.com.'' = ''_acme-challenge''"
  by (simp add: hostname_def TrimSuffix_def HasSuffix_def)

lemma putBodies_GET: "\<forall>q \<in> set tr. Method q = ''GET'' \<Longrightarrow> putBodies tr = []"
  by (auto simp: putBodies_def filter_empty_conv)

lemma putBodies_Present_send:
  assumes "putBodies tr = []"
  shows "putBodies (snd (Present_send w url payload tr)) = [] \<or>
         putBodies (snd (Present_send w url payload tr)) = [Some payload]"
  using assms
  by (auto simp: Present_send_def Let_def putBodies_def split: option.splits prod.splits)

lemma putBodies_Present_part0:
  "putBodies (snd (Present_part0 w (Some ch))) = [] \<or>
   putBodies (snd (Present_part0 w (Some ch))) = [Some (Marshal_Record (Present_record_part0 ch))]"
proof (cases "loadConfig w")
  case (Returns cfg)
  obtain out tr where g: "GetZoneID_part0 w (ResolvedZone ch) cfg = (out, tr)"
    by (cases "GetZoneID_part0 w (ResolvedZone ch) cfg")
  then have tr: "putBodies tr = []"
    using GetZoneID_part0_trace [of _ w "ResolvedZone ch" cfg] by (intro putBodies_GET) simp
  show ?thesis
  proof (cases out)
    case (Returns zoneID)
    with g \<open>loadConfig w = Returns cfg\<close>
    have "snd (Present_part0 w (Some ch)) =
        snd (Present_send w (recordsURL zoneID) (Marshal_Record (Present_record_part0 ch)) tr)"
      by (simp add: Present_part0_def)
    with putBodies_Present_send [OF tr] show ?thesis
      by simp
  qed (use tr g \<open>loadConfig w = Returns cfg\<close> in \<open>simp_all add: Present_part0_def\<close>)
qed (simp_all add: Present_part0_def putBodies_def)

lemma putBodies_Present_main:
  "putBodies (snd (Present_main w (Some ch))) = [] \<or>
   putBodies (snd (Present_main w (Some ch))) = [Some (Marshal_PutRecord (Present_record_main ch))]"
proof (cases "loadConfig w")
  case (Returns cfg)
  obtain out tr where g: "GetZoneID_main w (ResolvedZone ch) cfg = (out, tr)"
    by (cases "GetZoneID_main w (ResolvedZone ch) cfg")
  then have tr: "putBodies tr = []"
    using GetZoneID_main_trace [of _ w "ResolvedZone ch" cfg] by (intro putBodies_GET) simp
  show ?thesis
  proof (cases out)
    case (Returns zoneID)
    with g \<open>loadConfig w = Returns cfg\<close>
    have "snd (Present_main w (Some ch)) =
        snd (Present_send w (recordsURL zoneID) (Marshal_PutRecord (Present_record_main ch)) tr)"
      by (simp add: Present_main_def)
    with putBodies_Present_send [OF tr] show ?thesis
      by simp
  qed (use tr g \<open>loadConfig w = Returns cfg\<close> in \<open>simp_all add: Present_main_def\<close>)
qed (simp_all add: Present_main_def putBodies_def)

lemma body_scenario_A_part0:
  "Marshal_Record (Present_record_part0 (exampleRequest ''tok1'')) =
     [(''Type'', JInt 3), (''Ttl'', JInt 10), (''Value'', JStr ''tok1''),
      (''Name'', JStr ''_acme-challenge'')]"
  by (simp add: Marshal_Record_def Present_record_part0_def omitempty_def recordType_def
      recordTTL_def exampleRequest_def hostname_scenario_A)

lemma body_scenario_A_main:
  "Marshal_PutRecord (Present_record_main (exampleRequest ''tok1'')) =
     [(''Type'', JInt 3), (''Ttl'', JInt 10), (''Value'', JStr ''tok1''),
      (''Name'', JStr ''_acme-challenge''), (''Disabled'', JBool False)]"
  by (simp add: Marshal_PutRecord_def Present_record_main_def recordType_def
      recordTTL_def exampleRequest_def hostname_scenario_A)

text \<open>
  C2 says that for the request with FQDN \<^verbatim>\<open>_acme-challenge.example.com.\<close>, zone
  \<^verbatim>\<open>example.com.\<close> and key \<^verbatim>\<open>tok1\<close>, \<^verbatim>\<open>Present\<close> computes the relative hostname
  \<^verbatim>\<open>_acme-challenge\<close> and submits a record with exactly Type 3, Ttl 10, Value \<^verbatim>\<open>tok1\<close>,
  Name \<^verbatim>\<open>_acme-challenge\<close> and Disabled false. Both files compute that hostname. In
  every world, the PUT that main.go sends for this request, if it sends one, carries
  exactly these five members; the PUT that part_000 sends carries Type, Ttl, Value and
  Name only, without Disabled. Run against the example provider, both send the PUT to
  the records URL of zone 7, main.go with five members, part_000 with four.
\<close>

theorem Present_scenario_A_bodies:
  "exampleRequest ''tok1'' =
     \<lparr>ResolvedFQDN = ''_acme-challenge.example.com.'', ResolvedZone = ''example.com.'',
      Key = ''tok1''\<rparr> \<and>
   hostname (ResolvedFQDN (exampleRequest ''tok1'')) (ResolvedZone (exampleRequest ''tok1'')) =
     ''_acme-challenge'' \<and>
   (putBodies (snd (Present_main w (Some (exampleRequest ''tok1'')))) = [] \<or>
    putBodies (snd (Present_main w (Some (exampleRequest ''tok1'')))) =
      [Some [(''Type'', JInt 3), (''Ttl'', JInt 10), (''Value'', JStr ''tok1''),
             (''Name'', JStr ''_acme-challenge''), (''Disabled'', JBool False)]]) \<and>
   (putBodies (snd (Present_part0 w (Some (exampleRequest ''tok1'')))) = [] \<or>
    putBodies (snd (Present_part0 w (Some (exampleRequest ''tok1'')))) =
      [Some [(''Type'', JInt 3), (''Ttl'', JInt 10), (''Value'', JStr ''tok1''),
             (''Name'', JStr ''_acme-challenge'')]]) \<and>
   map (\<lambda>q. (Method q, URL q, Payload q))
     (snd (Present_main (exampleWorld (exampleZone [])) (Some (exampleRequest ''tok1'')))) =
     [(''GET'', ''https://api.bunny.net/dnszone?page=1&perPage=1&search=example.com'', None),
      (''PUT'', ''https://api.bunny.net/dnszone/7/records'',
       Some [(''Type'', JInt 3), (''Ttl'', JInt 10), (''Value'', JStr ''tok1''),
             (''Name'', JStr ''_acme-challenge''), (''Disabled'', JBool False)])] \<and>
   map (\<lambda>q. (Method q, URL q, Payload q))
     (snd (Present_part0 (exampleWorld (exampleZone [])) (Some (exampleRequest ''tok1'')))) =
     [(''GET'', ''https://api.bunny.net/dnszone?page=1&perPage=1&search=example.com'', None),
      (''PUT'', ''https://api.bunny.net/dnszone/7/records'',
       Some [(''Type'', JInt 3), (''Ttl'', JInt 10), (''Value'', JStr ''tok1''),
             (''Name'', JStr ''_acme-challenge'')])]"
proof (intro conjI)
  show "exampleRequest ''tok1'' =
     \<lparr>ResolvedFQDN = ''_acme-challenge.example.com.'', ResolvedZone = ''example.com.'',
      Key = ''tok1''\<rparr>"
    by (simp add: exampleRequest_def)
  show "hostname (ResolvedFQDN (exampleRequest ''tok1'')) (ResolvedZone (exampleRequest ''tok1'')) =
     ''_acme-challenge''"
    by (simp add: exampleRequest_def hostname_scenario_A)
  show "putBodies (snd (Present_main w (Some (exampleRequest ''tok1'')))) = [] \<or>
    putBodies (snd (Present_main w (Some (exampleRequest ''tok1'')))) =
      [Some [(''Type'', JInt 3), (''Ttl'', JInt 10), (''Value'', JStr ''tok1''),
             (''Name'', JStr ''_acme-challenge''), (''Disabled'', JBool False)]]"
    using putBodies_Present_main [of w "exampleRequest ''tok1''"]
    by (simp only: body_scenario_A_main)
  show "putBodies (snd (Present_part0 w (Some (exampleRequest ''tok1'')))) = [] \<or>
    putBodies (snd (Present_part0 w (Some (exampleRequest ''tok1'')))) =
      [Some [(''Type'', JInt 3), (''Ttl'', JInt 10), (''Value'', JStr ''tok1''),
             (''Name'', JStr ''_acme-challenge'')]]"
    using putBodies_Present_part0 [of w "exampleRequest ''tok1''"]
    by (simp only: body_scenario_A_part0)
  show "map (\<lambda>q. (Method q, URL q, Payload q))
     (snd (Present_main (exampleWorld (exampleZone [])) (Some (exampleRequest ''tok1'')))) =
     [(''GET'', ''https://api.bunny.net/dnszone?page=1&perPage=1&search=example.com'', None),
      (''PUT'', ''https://api.bunny.net/dnszone/7/records'',
       Some [(''Type'', JInt 3), (''Ttl'', JInt 10), (''Value'', JStr ''tok1''),
             (''Name'', JStr ''_acme-challenge''), (''Disabled'', JBool False)])]"
    by code_simp
  show "map (\<lambda>q. (Method q, URL q, Payload q))
     (snd (Present_part0 (exampleWorld (exampleZone [])) (Some (exampleRequest ''tok1'')))) =
     [(''GET'', ''https://api.bunny.net/dnszone?page=1&perPage=1&search=example.com'', None),
      (''PUT'', ''https://api.bunny.net/dnszone/7/records'',
       Some [(''Type'', JInt 3), (''Ttl'', JInt 10), (''Value'', JStr ''tok1''),
             (''Name'', JStr ''_acme-challenge'')])]"
    by code_simp
qed

section \<open>The body of the create request\<close>

text \<open>
  main.go marshals an anonymous struct with plain tags: five members, always. part_000
  marshals a \<^verbatim>\<open>Record\<close>, every field of which is tagged \<^verbatim>\<open>omitempty\<close>: \<^verbatim>\<open>Id\<close> is
  left out, as it is zero, and so is \<^verbatim>\<open>Disabled\<close>, as \<^verbatim>\<open>Present\<close> sets it to false, and
  \<^verbatim>\<open>Value\<close> or \<^verbatim>\<open>Name\<close> when the key or the relative hostname is empty.
\<close>

lemma Marshal_PutRecord_members:
  "map fst (Marshal_PutRecord r) = [''Type'', ''Ttl'', ''Value'', ''Name'', ''Disabled'']"
  by (simp add: Marshal_PutRecord_def)

lemma Marshal_Record_members:
  "map fst (Marshal_Record (Present_record_part0 ch)) =
     [''Type'', ''Ttl''] @ (if Key ch = [] then [] else [''Value'']) @
     (if hostname (ResolvedFQDN ch) (ResolvedZone ch) = [] then [] else [''Name''])"
  by (simp add: Marshal_Record_def Present_record_part0_def omitempty_def recordType_def
      recordTTL_def)

lemma Present_main_body_example:
  "map (\<lambda>q. (Method q, Payload q))
     (snd (Present_main (exampleWorld (exampleZone [])) (Some (exampleRequest ''tok1'')))) =
     [(''GET'', None),
      (''PUT'', Some [(''Type'', JInt 3), (''Ttl'', JInt 10), (''Value'', JStr ''tok1''),
                      (''Name'', JStr ''_acme-challenge''), (''Disabled'', JBool False)])]"
  by code_simp

text \<open>
  C4 says that the body of the create request holds exactly the members Type, Ttl, Value,
  Name and Disabled, for every input. In part_000 it does not: no body that \<^verbatim>\<open>Present\<close>
  builds has the member \<^verbatim>\<open>Disabled\<close>, and for the request of scenario A the PUT carries
  the four members Type, Ttl, Value and Name.
\<close>

theorem Present_part0_body_omits_Disabled:
  "''Disabled'' \<notin> set (map fst (Marshal_Record (Present_record_part0 ch))) \<and>
   map (\<lambda>q. (Method q, Payload q))
     (snd (Present_part0 (exampleWorld (exampleZone [])) (Some (exampleRequest ''tok1'')))) =
     [(''GET'', None),
      (''PUT'', Some [(''Type'', JInt 3), (''Ttl'', JInt 10), (''Value'', JStr ''tok1''),
                      (''Name'', JStr ''_acme-challenge'')])]"
proof
  show "''Disabled'' \<notin> set (map fst (Marshal_Record (Present_record_part0 ch)))"
    by (simp add: Marshal_Record_members)
  show "map (\<lambda>q. (Method q, Payload q))
     (snd (Present_part0 (exampleWorld (exampleZone [])) (Some (exampleRequest ''tok1'')))) =
     [(''GET'', None),
      (''PUT'', Some [(''Type'', JInt 3), (''Ttl'', JInt 10), (''Value'', JStr ''tok1''),
                      (''Name'', JStr ''_acme-challenge'')])]"
    by code_simp
qed

section \<open>A nil request\<close>

lemma Present_part0_nil: "Present_part0 w None = (Fails ''challenge request cannot be nil'', [])"
  by (simp add: Present_part0_def)

text \<open>
  C9 says that \<^verbatim>\<open>Present\<close> answers a nil request with an error. part_000 does
  (\<open>Present_part0_nil\<close>). main.go does not: in every world its \<^verbatim>\<open>Present\<close> panics on a
  nil request, having sent nothing; with an API key set, the panic is the nil
  dereference at \<^verbatim>\<open>ch.ResolvedZone\<close>.
\<close>

theorem Present_main_nil_panics:
  "\<exists>p. Present_main w None = (Panics p, []) \<and>
       Present_main (exampleWorld (exampleZone [])) None = (Panics NilDereference, [])"
  by (simp add: Present_main_def loadConfig_def exampleWorld_def)

section \<open>A search without result\<close>

lemma zone_not_found_part0_example:
  "Present_part0 (exampleWorld zeroZoneResponse) (Some (exampleRequest ''tok1'')) =
     (Fails ''failed to get zone ID: no DNS zone found for example.com'',
      [\<lparr>Method = ''GET'',
        URL = ''https://api.bunny.net/dnszone?page=1&perPage=1&search=example.com'',
        Header = [(''Accept'', ''application/json''), (''AccessKey'', ''secret'')],
        Payload = None\<rparr>]) \<and>
   CleanUp_part0 (exampleWorld zeroZoneResponse) (Some (exampleRequest ''tok1'')) =
     (Fails ''failed to get zone ID: no DNS zone found for example.com'',
      [\<lparr>Method = ''GET'',
        URL = ''https://api.bunny.net/dnszone?page=1&perPage=1&search=example.com'',
        Header = [(''Accept'', ''application/json''), (''AccessKey'', ''secret'')],
        Payload = None\<rparr>])"
  by code_simp

lemma GetZone_part0_no_items:
  assumes "zone \<noteq> []"
    and "NewRequest_fails w ''GET'' (searchURL (searchTerm zone)) = None"
    and "req = \<lparr>Method = ''GET'', URL = searchURL (searchTerm zone),
                 Header = [(''Accept'', ''application/json''), (''AccessKey'', APIKey cfg)],
                 Payload = None\<rparr>"
    and "ClientDo w req = (Some res, None)"
    and "Body res = (body, None)"
    and "Unmarshal w body = (data, None)"
    and "Items data = []"
  shows "GetZone_part0 w zone cfg = (Fails (''no DNS zone found for '' @ searchTerm zone), [req])"
  using assms by (simp add: GetZone_part0_def Let_def)

lemma zone_not_found_part0:
  assumes "ApiKey w \<noteq> []"
    and "GetZone_part0 w (ResolvedZone ch) \<lparr>APIKey = ApiKey w\<rparr> = (Fails e, tr)"
  shows "Present_part0 w (Some ch) = (Fails (''failed to get zone ID: '' @ e), tr) \<and>
         CleanUp_part0 w (Some ch) = (Fails (''failed to get zone ID: '' @ e), tr) \<and>
         (\<forall>q \<in> set tr. \<not> mutating q)"
  using assms mutating_GetZone_part0 [of _ w "ResolvedZone ch" "\<lparr>APIKey = ApiKey w\<rparr>"]
  by (simp add: Present_part0_def CleanUp_part0_def CleanUp_body_def loadConfig_def
      GetZoneID_part0_def GetZoneID_body_def)

text \<open>
  C3 says that, when the search returns zero items, \<^verbatim>\<open>Present\<close> and \<^verbatim>\<open>CleanUp\<close> return
  a zone-not-found error and send no mutating request. part_000 does
  (\<open>GetZone_part0_no_items\<close>, \<open>zone_not_found_part0\<close>). In main.go neither function returns:
  \<^verbatim>\<open>GetZone\<close> returns the empty result with a nil error, and \<^verbatim>\<open>data.Items[0]\<close> in
  \<^verbatim>\<open>GetZoneID\<close>, \<^verbatim>\<open>zoneData.Items[0]\<close> in \<^verbatim>\<open>CleanUp\<close>, panics. Only the search has been
  sent by then.
\<close>

theorem zone_not_found_main_panics:
  "Present_main (exampleWorld zeroZoneResponse) (Some (exampleRequest ''tok1'')) =
     (Panics IndexOutOfRange,
      [\<lparr>Method = ''GET'',
        URL = ''https://api.bunny.net/dnszone?page=1&perPage=1&search=example.com'',
        Header = [(''accept'', ''application/json''), (''AccessKey'', ''secret'')],
        Payload = None\<rparr>]) \<and>
   CleanUp_main (exampleWorld zeroZoneResponse) (Some (exampleRequest ''tok1'')) =
     (Panics IndexOutOfRange,
      [\<lparr>Method = ''GET'',
        URL = ''https://api.bunny.net/dnszone?page=1&perPage=1&search=example.com'',
        Header = [(''accept'', ''application/json''), (''AccessKey'', ''secret'')],
        Payload = None\<rparr>])"
  by code_simp

section \<open>Errors of the zone lookup\<close>

lemma GetZone_part0_wraps:
  assumes "zone \<noteq> []"
    and "NewRequest_fails w ''GET'' (searchURL (searchTerm zone)) = None"
    and "req = \<lparr>Method = ''GET'', URL = searchURL (searchTerm zone),
                 Header = [(''Accept'', ''application/json''), (''AccessKey'', APIKey cfg)],
                 Payload = None\<rparr>"
  shows "(snd (ClientDo w req) = Some e \<longrightarrow>
            GetZone_part0 w zone cfg = (Fails (''failed to execute request: '' @ e), [req])) \<and>
         (ClientDo w req = (Some res, None) \<and> snd (Body res) = Some e \<longrightarrow>
            GetZone_part0 w zone cfg = (Fails (''failed to read response body: '' @ e), [req])) \<and>
         (ClientDo w req = (Some res, None) \<and> Body res = (body, None) \<and>
          snd (Unmarshal w body) = Some e \<longrightarrow>
            GetZone_part0 w zone cfg = (Fails (''failed to unmarshal response: '' @ e), [req]))"
  using assms by (auto simp: GetZone_part0_def Let_def split: prod.splits option.splits)

text \<open>
  C7 says that a failure to send the search request, to read the response body or to
  decode it is wrapped and returned. part_000 does (\<open>GetZone_part0_wraps\<close>), and its
  callers wrap once more (\<open>zone_not_found_part0\<close>). main.go does not: when sending fails,
  \<^verbatim>\<open>GetZone\<close> panics on the nil response; when reading and decoding fail, it returns what
  was decoded with a nil error, and \<^verbatim>\<open>Present\<close> and \<^verbatim>\<open>CleanUp\<close> then panic on the empty
  \<^verbatim>\<open>Items\<close>.
\<close>

theorem GetZone_main_discards_errors:
  "GetZone_main
     ((exampleWorld (exampleZone []))
        \<lparr>ClientDo := \<lambda>q. (None, Some ''dial tcp: i/o timeout'')\<rparr>)
     ''example.com.'' \<lparr>APIKey = ''secret''\<rparr> =
     (Panics NilDereference,
      [\<lparr>Method = ''GET'',
        URL = ''https://api.bunny.net/dnszone?page=1&perPage=1&search=example.com'',
        Header = [(''accept'', ''application/json''), (''AccessKey'', ''secret'')],
        Payload = None\<rparr>]) \<and>
   GetZone_main
     ((exampleWorld (exampleZone []))
        \<lparr>ClientDo := \<lambda>q. (Some \<lparr>StatusCode = 200, Body = (''{'', Some ''unexpected EOF'')\<rparr>, None),
         Unmarshal := \<lambda>b. (zeroZoneResponse, Some ''unexpected end of JSON input'')\<rparr>)
     ''example.com.'' \<lparr>APIKey = ''secret''\<rparr> =
     (Returns zeroZoneResponse,
      [\<lparr>Method = ''GET'',
        URL = ''https://api.bunny.net/dnszone?page=1&perPage=1&search=example.com'',
        Header = [(''accept'', ''application/json''), (''AccessKey'', ''secret'')],
        Payload = None\<rparr>]) \<and>
   fst (Present_main
     ((exampleWorld (exampleZone []))
        \<lparr>Unmarshal := \<lambda>b. (zeroZoneResponse, Some ''invalid character'')\<rparr>)
     (Some (exampleRequest ''tok1''))) = Panics IndexOutOfRange \<and>
   fst (CleanUp_main
     ((exampleWorld (exampleZone []))
        \<lparr>Unmarshal := \<lambda>b. (zeroZoneResponse, Some ''invalid character'')\<rparr>)
     (Some (exampleRequest ''tok1''))) = Panics IndexOutOfRange"
  by code_simp

end
